theory Spec2Isabelle
  imports Complex_Main
begin

section \<open>AARR: the aerodynamics engine and the simulation manager\<close>

text \<open>
  A shallow embedding of \<^verbatim>\<open>src/physics/aerodynamics.py\<close> and
  \<^verbatim>\<open>src/physics/simulation.py\<close>.

  Numbers. Python and numpy floats are modelled as \<^typ>\<open>real\<close>: the arithmetic is
  exact, so rounding and overflow are outside the model. A numpy array of shape (3,) is
  a triple of reals. Python's scalar division raises \<^verbatim>\<open>ZeroDivisionError\<close> on a
  zero divisor and is modelled with that error as a value. numpy's division does not
  raise: it yields \<^verbatim>\<open>inf\<close> or \<^verbatim>\<open>nan\<close>. In the flow field, whose only division is
  by the clamped radius, that outcome is modelled explicitly (\<open>np_divide\<close>, \<open>None\<close> for a
  non-finite entry). In the force computation the model uses HOL's division, which
  agrees with numpy wherever the divisor is not zero.

  Effects. The manager object is a record that each method takes and returns. The sample
  that \<^verbatim>\<open>np.random.normal\<close> draws in a step is an argument of the step. Observer
  callbacks, the thread flags' sleeping loop of \<^verbatim>\<open>run_simulation\<close> and the streamline
  polylines of the flow field are not modelled: none of them writes to the fields the
  properties below speak about.
\<close>

subsection \<open>Vectors\<close>

type_synonym vec3 = "real \<times> real \<times> real"

definition np_zeros3 :: vec3 where
  "np_zeros3 = (0, 0, 0)"

fun vadd :: "vec3 \<Rightarrow> vec3 \<Rightarrow> vec3" where
  "vadd (a1, a2, a3) (b1, b2, b3) = (a1 + b1, a2 + b2, a3 + b3)"

fun vsub :: "vec3 \<Rightarrow> vec3 \<Rightarrow> vec3" where
  "vsub (a1, a2, a3) (b1, b2, b3) = (a1 - b1, a2 - b2, a3 - b3)"

fun vscale :: "vec3 \<Rightarrow> real \<Rightarrow> vec3" where
  "vscale (a1, a2, a3) k = (a1 * k, a2 * k, a3 * k)"

fun vdiv :: "vec3 \<Rightarrow> real \<Rightarrow> vec3" where
  "vdiv (a1, a2, a3) k = (a1 / k, a2 / k, a3 / k)"

fun np_linalg_norm :: "vec3 \<Rightarrow> real" where
  "np_linalg_norm (a1, a2, a3) = sqrt (a1\<^sup>2 + a2\<^sup>2 + a3\<^sup>2)"

text \<open>\<^verbatim>\<open>np.linalg.norm(velocity[:2])\<close>: the norm of the first two components.\<close>

fun np_linalg_norm_xy :: "vec3 \<Rightarrow> real" where
  "np_linalg_norm_xy (a1, a2, a3) = sqrt (a1\<^sup>2 + a2\<^sup>2)"

definition radians :: "real \<Rightarrow> real" where
  "radians angle = angle * (pi / 180)"

subsection \<open>Data model of the engine\<close>

datatype ObjectType = JET | SPHERE | CYLINDER | CUBE | AIRFOIL | CUSTOM

record AirProperties =
  density :: real
  viscosity :: real
  temperature :: real
  pressure :: real
  speed_of_sound :: real

definition default_air :: AirProperties where
  "default_air = \<lparr> density = 1.225, viscosity = 1.81 / 10 ^ 5, temperature = 288.15,
     pressure = 101325, speed_of_sound = 343 \<rparr>"

text \<open>The field \<^verbatim>\<open>length\<close> is named \<open>length_g\<close>; the optional mesh fields, which
  the physics never reads, are left out.\<close>

record ObjectGeometry =
  length_g :: real
  width :: real
  height :: real
  frontal_area :: real
  surface_area :: real
  volume :: real
  object_type :: ObjectType

record Coefficients =
  cd :: real
  cl :: real
  reynolds :: real
  mach :: real

text \<open>The dictionary that \<^verbatim>\<open>calculate_forces\<close> returns. The key \<^verbatim>\<open>'total'\<close> is the
  field \<open>total_vec\<close>; the key \<^verbatim>\<open>'coefficients'\<close> is absent exactly when the field is
  \<open>None\<close>.\<close>

record ForceBundle =
  drag :: vec3
  lift :: vec3
  side_force :: vec3
  total_vec :: vec3
  coefficients :: "Coefficients option"

record Engine =
  air_props :: AirProperties
  grid_size :: "nat \<times> nat"

definition init_engine :: Engine where
  "init_engine = \<lparr> air_props = default_air, grid_size = (100, 100) \<rparr>"

subsection \<open>Coefficient model\<close>

definition calculate_reynolds_number :: "AirProperties \<Rightarrow> real \<Rightarrow> real \<Rightarrow> real" where
  "calculate_reynolds_number air velocity characteristic_length =
     (density air * velocity * characteristic_length) / viscosity air"

definition calculate_mach_number :: "AirProperties \<Rightarrow> real \<Rightarrow> real" where
  "calculate_mach_number air velocity = velocity / speed_of_sound air"

definition get_drag_coefficient :: "ObjectType \<Rightarrow> real \<Rightarrow> real \<Rightarrow> real \<Rightarrow> real" where
  "get_drag_coefficient obj_type re ma angle =
     (let angle_rad = radians angle in
      if obj_type = JET then
        (let base_cd = 0.02;
             induced_drag = 0.1 * angle_rad\<^sup>2;
             wave_drag = (if ma > 0.8 then 0.05 * (ma - 0.8)\<^sup>2 else 0)
         in base_cd + induced_drag + wave_drag)
      else if obj_type = SPHERE then
        (if re < 1 then 24 / re
         else if re < 1000 then 24 / re * (1 + 0.15 * (re powr 0.687))
         else 0.44)
      else if obj_type = CYLINDER then
        (if re < 1 then 8 * pi / re
         else if re < 40 then 1.0
         else if re < 1000 then 1.2
         else 0.3)
      else if obj_type = CUBE then 1.05 + 0.2 * \<bar>sin (2 * angle_rad)\<bar>
      else if obj_type = AIRFOIL then
        (let base_cd = 0.01; induced_drag = 0.05 * angle_rad\<^sup>2
         in base_cd + induced_drag)
      else 0.5)"

definition calculate_lift_coefficient :: "ObjectType \<Rightarrow> real \<Rightarrow> real \<Rightarrow> real" where
  "calculate_lift_coefficient obj_type angle re =
     (let angle_rad = radians angle in
      if obj_type = JET then 0.8 * sin (2 * angle_rad) * (1 - \<bar>angle_rad\<bar> / pi)
      else if obj_type = AIRFOIL then 2 * pi * angle_rad * (1 - \<bar>angle_rad\<bar> / (pi / 4))
      else 0.1 * sin (2 * angle_rad))"

subsection \<open>Force resolver\<close>

definition zero_forces :: ForceBundle where
  "zero_forces = \<lparr> drag = np_zeros3, lift = np_zeros3, side_force = np_zeros3,
     total_vec = np_zeros3, coefficients = None \<rparr>"

definition calculate_forces ::
  "AirProperties \<Rightarrow> ObjectGeometry \<Rightarrow> vec3 \<Rightarrow> real \<Rightarrow> vec3 \<Rightarrow> ForceBundle" where
  "calculate_forces air geom velocity angle wind_velocity =
     (let relative_velocity = vsub velocity wind_velocity;
          speed = np_linalg_norm relative_velocity
      in if speed < 1 / 10 ^ 6 then zero_forces
         else
          (let velocity_unit = vdiv relative_velocity speed;
               re = calculate_reynolds_number air speed (length_g geom);
               ma = calculate_mach_number air speed;
               c_d = get_drag_coefficient (object_type geom) re ma angle;
               c_l = calculate_lift_coefficient (object_type geom) angle re;
               q = 0.5 * density air * speed\<^sup>2;
               drag_magnitude = c_d * frontal_area geom * q;
               drag_force = vscale velocity_unit (- drag_magnitude);
               lift_magnitude = c_l * frontal_area geom * q;
               lift_direction = (if \<bar>fst velocity_unit\<bar> > 0.1 then (0, 1, 0) else (1, 0, 0));
               lift_force = vscale lift_direction lift_magnitude;
               side = np_zeros3;
               total_force = vadd (vadd drag_force lift_force) side
           in \<lparr> drag = drag_force, lift = lift_force, side_force = side,
                total_vec = total_force,
                coefficients = Some \<lparr> cd = c_d, cl = c_l, reynolds = re, mach = ma \<rparr> \<rparr>))"

subsection \<open>Flow field\<close>

text \<open>A two-dimensional numpy array is a list of rows.\<close>

type_synonym 'a grid = "'a list list"

definition grid_map :: "('a \<Rightarrow> 'b) \<Rightarrow> 'a grid \<Rightarrow> 'b grid" where
  "grid_map f A = map (map f) A"

definition grid_map2 :: "('a \<Rightarrow> 'b \<Rightarrow> 'c) \<Rightarrow> 'a grid \<Rightarrow> 'b grid \<Rightarrow> 'c grid" where
  "grid_map2 f A B = map2 (map2 f) A B"

text \<open>\<^verbatim>\<open>np.linspace(start, stop, num)\<close>: \<open>num\<close> evenly spaced samples, the last one
  set to \<open>stop\<close>.\<close>

definition linspace :: "real \<Rightarrow> real \<Rightarrow> nat \<Rightarrow> real list" where
  "linspace start stop num =
     (if num = 0 then []
      else if num = 1 then [start]
      else map (\<lambda>i. start + real i * ((stop - start) / real (num - 1))) [0..<num - 1] @ [stop])"

definition np_meshgrid :: "real list \<Rightarrow> real list \<Rightarrow> real grid \<times> real grid" where
  "np_meshgrid x y = (replicate (length y) x, map (\<lambda>b. replicate (length x) b) y)"

definition np_arctan2 :: "real \<Rightarrow> real \<Rightarrow> real" where
  "np_arctan2 y x =
     (if x > 0 then arctan (y / x)
      else if x < 0 then (if y \<ge> 0 then arctan (y / x) + pi else arctan (y / x) - pi)
      else if y > 0 then pi / 2
      else if y < 0 then - (pi / 2)
      else 0)"

text \<open>numpy's division of floats: a zero divisor gives \<^verbatim>\<open>inf\<close> or \<^verbatim>\<open>nan\<close> (\<open>None\<close>), and
  every later sum, product or square root of such a value is again non-finite, so the
  entries computed from it are \<open>None\<close> as well.\<close>

definition np_divide :: "real \<Rightarrow> real \<Rightarrow> real option" where
  "np_divide a b = (if b = 0 then None else Some (a / b))"

record FlowField =
  ff_x :: "real grid"
  ff_y :: "real grid"
  ff_u :: "real option grid"
  ff_v :: "real option grid"
  ff_pressure :: "real option grid"
  ff_velocity_magnitude :: "real option grid"

definition generate_flow_field ::
  "Engine \<Rightarrow> ObjectGeometry \<Rightarrow> vec3 \<Rightarrow> real \<Rightarrow> real \<times> real \<Rightarrow> FlowField" where
  "generate_flow_field eng geom velocity angle domain_size =
     (let x_max = fst domain_size;
          y_max = snd domain_size;
          x = linspace (- x_max / 2) (x_max / 2) (fst (grid_size eng));
          y = linspace (- y_max / 2) (y_max / 2) (snd (grid_size eng));
          X = fst (np_meshgrid x y);
          Y = snd (np_meshgrid x y);
          speed = np_linalg_norm_xy velocity;
          obj_x = 0;
          obj_y = 0;
          obj_radius = max (width geom) (height geom) / 2;
          R0 = grid_map2 (\<lambda>a b. sqrt ((a - obj_x)\<^sup>2 + (b - obj_y)\<^sup>2)) X Y;
          R = grid_map (\<lambda>r. max r obj_radius) R0;
          theta = grid_map2 (\<lambda>b a. np_arctan2 (b - obj_y) (a - obj_x)) Y X;
          ratio = grid_map (np_divide obj_radius) R;
          u = grid_map2 (\<lambda>q t. map_option (\<lambda>k. speed * (1 - k\<^sup>2 * cos (2 * t))) q) ratio theta;
          v = grid_map2 (\<lambda>q t. map_option (\<lambda>k. - speed * k\<^sup>2 * sin (2 * t)) q) ratio theta;
          velocity_magnitude =
            grid_map2 (\<lambda>a b. case a of None \<Rightarrow> None
                             | Some a' \<Rightarrow> (case b of None \<Rightarrow> None
                                 | Some b' \<Rightarrow> Some (sqrt (a'\<^sup>2 + b'\<^sup>2)))) u v;
          p = grid_map (map_option (\<lambda>m. pressure (air_props eng)
                 + 0.5 * density (air_props eng) * (speed\<^sup>2 - m\<^sup>2))) velocity_magnitude
      in \<lparr> ff_x = X, ff_y = Y, ff_u = u, ff_v = v, ff_pressure = p,
           ff_velocity_magnitude = velocity_magnitude \<rparr>)"

subsection \<open>Efficiency metrics\<close>

datatype py_error = ZeroDivisionError

text \<open>A Python float that may be \<^verbatim>\<open>float('inf')\<close>.\<close>

datatype py_float = Finite real | PosInf

record Efficiency =
  lift_to_drag_ratio :: py_float
  drag_area :: real
  fineness_ratio :: real
  drag_coefficient :: real
  lift_coefficient :: real

text \<open>\<^verbatim>\<open>geometry.length / max(geometry.width, geometry.height)\<close> divides Python floats, so
  a zero divisor raises \<^verbatim>\<open>ZeroDivisionError\<close>; every statement before it is free of
  effects.\<close>

definition calculate_aerodynamic_efficiency ::
  "ForceBundle \<Rightarrow> ObjectGeometry \<Rightarrow> py_error + Efficiency" where
  "calculate_aerodynamic_efficiency forces_d geom =
     (let drag_force = np_linalg_norm (drag forces_d);
          lift_force = np_linalg_norm (lift forces_d);
          lift_to_drag = (if drag_force > 1 / 10 ^ 6 then Finite (lift_force / drag_force)
                          else PosInf);
          area = frontal_area geom
      in if max (width geom) (height geom) = 0 then Inl ZeroDivisionError
         else Inr \<lparr> lift_to_drag_ratio = lift_to_drag,
                    drag_area = area,
                    fineness_ratio = length_g geom / max (width geom) (height geom),
                    drag_coefficient = (case coefficients forces_d of None \<Rightarrow> 0
                                        | Some c \<Rightarrow> cd c),
                    lift_coefficient = (case coefficients forces_d of None \<Rightarrow> 0
                                        | Some c \<Rightarrow> cl c) \<rparr>)"

subsection \<open>Data model of the simulation manager\<close>

record SimulationParameters =
  dt :: real
  max_time :: real
  wind_velocity :: vec3
  wind_angle :: real
  object_angle :: real
  gravity :: vec3
  air_density :: real
  enable_turbulence :: bool
  turbulence_intensity :: real

definition default_parameters :: SimulationParameters where
  "default_parameters = \<lparr> dt = 0.001, max_time = 10, wind_velocity = (10, 0, 0),
     wind_angle = 0, object_angle = 0, gravity = (0, - 9.81, 0), air_density = 1.225,
     enable_turbulence = False, turbulence_intensity = 0.1 \<rparr>"

text \<open>\<open>forces = None\<close> is the empty dictionary the state is built with. The field
  \<^verbatim>\<open>moments\<close>, an empty dictionary that is never written, is left out.\<close>

record SimulationState =
  position :: vec3
  velocity :: vec3
  acceleration :: vec3
  angular_velocity :: vec3
  time :: real
  forces :: "ForceBundle option"

record SimulationResults =
  time_history :: "real list"
  position_history :: "vec3 list"
  velocity_history :: "vec3 list"
  acceleration_history :: "vec3 list"
  force_history :: "ForceBundle list"
  flow_fields :: "FlowField list"
  efficiency_metrics :: "Efficiency list"

definition empty_results :: SimulationResults where
  "empty_results = \<lparr> time_history = [], position_history = [], velocity_history = [],
     acceleration_history = [], force_history = [], flow_fields = [],
     efficiency_metrics = [] \<rparr>"

record SimulationManager =
  engine :: Engine
  is_running :: bool
  is_paused :: bool
  current_time :: real
  results :: SimulationResults
  parameters :: SimulationParameters
  state :: SimulationState
  geometry :: "ObjectGeometry option"

definition init_manager :: SimulationManager where
  "init_manager = \<lparr> engine = init_engine, is_running = False, is_paused = False,
     current_time = 0, results = empty_results, parameters = default_parameters,
     state = \<lparr> position = (0, 0, 0), velocity = (0, 0, 0), acceleration = (0, 0, 0),
               angular_velocity = (0, 0, 0), time = 0, forces = None \<rparr>,
     geometry = None \<rparr>"

subsection \<open>Operations of the simulation manager\<close>

definition set_object_geometry ::
  "ObjectType \<Rightarrow> real \<Rightarrow> real \<Rightarrow> real \<Rightarrow> SimulationManager \<Rightarrow> SimulationManager" where
  "set_object_geometry obj_type len w h m =
     (let (fa, sa, vol) =
        (if obj_type = JET then
           (let fa = pi * (w / 2) * (h / 2) in (fa, 2 * pi * (w / 2) * len, fa * len * 0.7))
         else if obj_type = SPHERE then
           (let radius = w / 2
            in (pi * radius\<^sup>2, 4 * pi * radius\<^sup>2, (4 / 3) * pi * radius ^ 3))
         else if obj_type = CYLINDER then
           (let radius = w / 2
            in (pi * radius\<^sup>2, 2 * pi * radius * (radius + len), pi * radius\<^sup>2 * len))
         else (w * h, 2 * (w * h + w * len + h * len), w * h * len))
      in m\<lparr>geometry := Some \<lparr> length_g = len, width = w, height = h, frontal_area = fa,
             surface_area = sa, volume = vol, object_type = obj_type \<rparr>\<rparr>)"

definition reset_simulation :: "SimulationManager \<Rightarrow> SimulationManager" where
  "reset_simulation m =
     m\<lparr>current_time := 0, is_running := False, is_paused := False,
       results := empty_results,
       state := \<lparr> position = (0, 0, 0), velocity = wind_velocity (parameters m),
                  acceleration = (0, 0, 0), angular_velocity = (0, 0, 0), time = 0,
                  forces = None \<rparr>\<rparr>"

text \<open>How a call of \<^verbatim>\<open>step_simulation\<close> ends: it returns a flag, or an exception
  leaves it.\<close>

datatype outcome = Returned bool | Raised py_error

text \<open>Lines 141 to 152 of \<^verbatim>\<open>step_simulation\<close>: the wind vector of this step. The
  argument \<open>turbulence\<close> is the sample \<^verbatim>\<open>np.random.normal(0, turbulence_intensity, 3)\<close>
  returns; it is read only when turbulence is enabled.\<close>

definition step_wind :: "SimulationParameters \<Rightarrow> vec3 \<Rightarrow> vec3" where
  "step_wind p turbulence =
     (let wind_angle_rad = radians (wind_angle p);
          wind_speed = np_linalg_norm (wind_velocity p);
          wind = (wind_speed * cos wind_angle_rad, wind_speed * sin wind_angle_rad, 0)
      in if enable_turbulence p then vadd wind (vscale turbulence wind_speed) else wind)"

text \<open>Lines 177 to 181: the five appends of a step.\<close>

definition record_step ::
  "real \<Rightarrow> SimulationState \<Rightarrow> ForceBundle \<Rightarrow> SimulationResults \<Rightarrow> SimulationResults" where
  "record_step t st f r =
     r\<lparr>time_history := time_history r @ [t],
       position_history := position_history r @ [position st],
       velocity_history := velocity_history r @ [velocity st],
       acceleration_history := acceleration_history r @ [acceleration st],
       force_history := force_history r @ [f]\<rparr>"

text \<open>Lines 162 to 174: the integrator. The new velocity is computed first and the
  new position from it; \<open>t\<close> is the clock after the step.\<close>

definition integrate_state ::
  "SimulationParameters \<Rightarrow> ForceBundle \<Rightarrow> real \<Rightarrow> SimulationState \<Rightarrow> SimulationState" where
  "integrate_state p f t st =
     (let total_force = vadd (total_vec f) (gravity p);
          vel = vadd (velocity st) (vscale total_force (dt p));
          pos = vadd (position st) (vscale vel (dt p))
      in st\<lparr>acceleration := total_force, velocity := vel, position := pos,
            time := t, forces := Some f\<rparr>)"

text \<open>Lines 184 to 195: on every tenth entry of the log a flow field is appended, then
  the efficiency metrics are computed and appended. When that computation raises, the
  flow field has been appended already; the first component is the exception.\<close>

definition record_snapshot ::
  "Engine \<Rightarrow> ObjectGeometry \<Rightarrow> SimulationParameters \<Rightarrow> SimulationState \<Rightarrow> ForceBundle
     \<Rightarrow> SimulationResults \<Rightarrow> py_error option \<times> SimulationResults" where
  "record_snapshot eng geom p st f r =
     (if length (time_history r) mod 10 = 0 then
        (let flow_field = generate_flow_field eng geom (velocity st) (object_angle p) (20, 10);
             r2 = r\<lparr>flow_fields := flow_fields r @ [flow_field]\<rparr>
         in case calculate_aerodynamic_efficiency f geom of
              Inl e \<Rightarrow> (Some e, r2)
            | Inr efficiency \<Rightarrow>
                (None, r2\<lparr>efficiency_metrics := efficiency_metrics r2 @ [efficiency]\<rparr>))
      else (None, r))"

definition step_simulation :: "vec3 \<Rightarrow> SimulationManager \<Rightarrow> outcome \<times> SimulationManager" where
  "step_simulation turbulence m =
     (case geometry m of
        None \<Rightarrow> (Returned False, m)
      | Some geom \<Rightarrow>
          if current_time m \<ge> max_time (parameters m) then (Returned False, m)
          else
           (let p = parameters m;
                wind = step_wind p turbulence;
                f = calculate_forces (air_props (engine m)) geom (velocity (state m))
                      (object_angle p) wind;
                t = current_time m + dt p;
                st = integrate_state p f t (state m);
                r = record_step t st f (results m);
                snap = record_snapshot (engine m) geom p st f r;
                m' = m\<lparr>current_time := t, state := st, results := snd snap\<rparr>
            in case fst snap of
                 None \<Rightarrow> (Returned True, m')
               | Some e \<Rightarrow> (Raised e, m')))"

text \<open>The caller's loop
  \<^verbatim>\<open>while steps < max_steps and sim.step_simulation(): steps += 1\<close> of the demo and
  the tests. The list holds the turbulence samples of the successive calls, and its
  length is \<^verbatim>\<open>max_steps\<close>. The result is how the loop ends: \<open>None\<close> when the step
  budget is used up, \<open>Some (Returned False)\<close> when a call returns \<^verbatim>\<open>False\<close>, and
  \<open>Some (Raised e)\<close> when an exception leaves the loop; the manager is as the last call
  left it.\<close>

fun step_loop ::
  "vec3 list \<Rightarrow> SimulationManager \<Rightarrow> outcome option \<times> SimulationManager" where
  "step_loop [] m = (None, m)"
| "step_loop (z # zs) m =
     (let r = step_simulation z m
      in if fst r = Returned True then step_loop zs (snd r) else (Some (fst r), snd r))"

subsection \<open>Concrete configurations\<close>

text \<open>The geometry that \<^verbatim>\<open>set_object_geometry(ObjectType.CUBE, 2.0, 2.0, 2.0)\<close> builds.\<close>

definition cube_geometry :: ObjectGeometry where
  "cube_geometry = \<lparr> length_g = 2, width = 2, height = 2, frontal_area = 4,
     surface_area = 24, volume = 8, object_type = CUBE \<rparr>"

text \<open>A fresh manager after \<^verbatim>\<open>set_object_geometry(ObjectType.CUBE, 2.0, 2.0, 2.0)\<close>
  and \<^verbatim>\<open>set_parameters(dt=0.01, max_time=1.0)\<close>.\<close>

definition cube_manager :: SimulationManager where
  "cube_manager =
     (set_object_geometry CUBE 2 2 2 init_manager)
       \<lparr>parameters := default_parameters\<lparr>dt := 0.01, max_time := 1\<rparr>\<rparr>"

text \<open>The same with \<^verbatim>\<open>set_object_geometry(ObjectType.CUBE, 1.0, 0.0, 0.0)\<close>: a body
  without width and height.\<close>

definition flat_manager :: SimulationManager where
  "flat_manager =
     (set_object_geometry CUBE 1 0 0 init_manager)
       \<lparr>parameters := default_parameters\<lparr>dt := 0.01, max_time := 1\<rparr>\<rparr>"

subsection \<open>The length invariant of the log\<close>

definition log_invariant :: "SimulationResults \<Rightarrow> bool" where
  "log_invariant r \<longleftrightarrow>
     length (position_history r) = length (time_history r)
   \<and> length (velocity_history r) = length (time_history r)
   \<and> length (acceleration_history r) = length (time_history r)
   \<and> length (force_history r) = length (time_history r)
   \<and> length (flow_fields r) = length (time_history r) div 10
   \<and> length (efficiency_metrics r) = length (time_history r) div 10"

text \<open>A caller's sequence of steps and resets. An exception of a step ends the
  sequence, as it would leave the caller's code.\<close>

datatype command = Step vec3 | Reset

fun run_commands :: "command list \<Rightarrow> SimulationManager \<Rightarrow> py_error + SimulationManager" where
  "run_commands [] m = Inr m"
| "run_commands (Reset # cs) m = run_commands cs (reset_simulation m)"
| "run_commands (Step z # cs) m =
     (case fst (step_simulation z m) of
        Raised e \<Rightarrow> Inl e
      | Returned b \<Rightarrow> run_commands cs (snd (step_simulation z m)))"

section \<open>Properties\<close>

subsection \<open>Force resolver at zero relative speed\<close>

text \<open>
  C1. When the norm of \<open>object_velocity - wind_velocity\<close> is below \<open>1e-6\<close>,
  \<open>calculate_forces\<close> returns, for every geometry, angle of attack and air properties, a
  bundle whose drag, lift, side force and total are all \<open>(0, 0, 0)\<close> and which has no
  coefficients entry. The result is an ordinary return value: the function has no
  error outcome at all.
\<close>

theorem calculate_forces_zero_speed:
  assumes "np_linalg_norm (vsub object_velocity wind) < 1 / 10 ^ 6"
  shows "drag (calculate_forces air geom object_velocity angle wind) = (0, 0, 0)
       \<and> lift (calculate_forces air geom object_velocity angle wind) = (0, 0, 0)
       \<and> side_force (calculate_forces air geom object_velocity angle wind) = (0, 0, 0)
       \<and> total_vec (calculate_forces air geom object_velocity angle wind) = (0, 0, 0)
       \<and> coefficients (calculate_forces air geom object_velocity angle wind) = None"
  using assms by (simp add: calculate_forces_def zero_forces_def np_zeros3_def)

theorem calculate_forces_zero_speed_witness:
  "np_linalg_norm (vsub (10, 0, 0) (10, 0, 0)) < 1 / 10 ^ 6
   \<and> drag (calculate_forces default_air cube_geometry (10, 0, 0) 5 (10, 0, 0)) = (0, 0, 0)
   \<and> lift (calculate_forces default_air cube_geometry (10, 0, 0) 5 (10, 0, 0)) = (0, 0, 0)
   \<and> side_force (calculate_forces default_air cube_geometry (10, 0, 0) 5 (10, 0, 0))
       = (0, 0, 0)
   \<and> total_vec (calculate_forces default_air cube_geometry (10, 0, 0) 5 (10, 0, 0))
       = (0, 0, 0)
   \<and> coefficients (calculate_forces default_air cube_geometry (10, 0, 0) 5 (10, 0, 0))
       = None"
  using calculate_forces_zero_speed [of "(10, 0, 0)" "(10, 0, 0)" default_air cube_geometry 5]
  by simp

subsection \<open>Drag coefficient\<close>



subsection \<open>The sphere's drag coefficient at Reynolds number one\<close>

lemma sphere_stokes_branch:
  "re < 1 \<Longrightarrow> get_drag_coefficient SPHERE re ma angle = 24 / re"
  by (simp add: get_drag_coefficient_def)

lemma sphere_middle_branch:
  "1 \<le> re \<Longrightarrow> re < 1000 \<Longrightarrow>
   get_drag_coefficient SPHERE re ma angle = 24 / re * (1 + 0.15 * (re powr 0.687))"
  by (simp add: get_drag_coefficient_def)

lemma sphere_left_limit:
  "((\<lambda>re. get_drag_coefficient SPHERE re ma angle) \<longlongrightarrow> 24) (at_left 1)"
proof -
  have "((\<lambda>re::real. 24 / re) \<longlongrightarrow> 24 / 1) (at_left 1)"
    by (intro tendsto_intros) simp_all
  moreover have "eventually (\<lambda>re. 24 / re = get_drag_coefficient SPHERE re ma angle) (at_left 1)"
  proof -
    have "eventually (\<lambda>re::real. re \<in> {0<..<1}) (at_left 1)"
      by (rule eventually_at_left_real) simp
    then show ?thesis
      by (rule eventually_mono) (simp add: sphere_stokes_branch)
  qed
  ultimately show ?thesis
    using Lim_transform_eventually by fastforce
qed

lemma sphere_right_limit:
  "((\<lambda>re. get_drag_coefficient SPHERE re ma angle) \<longlongrightarrow> 138 / 5) (at_right 1)"
proof -
  have "((\<lambda>re::real. 24 / re * (1 + 0.15 * (re powr 0.687)))
          \<longlongrightarrow> 24 / 1 * (1 + 0.15 * (1 powr 0.687))) (at_right 1)"
    by (intro tendsto_intros) simp_all
  moreover have "eventually (\<lambda>re. 24 / re * (1 + 0.15 * (re powr 0.687))
                    = get_drag_coefficient SPHERE re ma angle) (at_right 1)"
  proof -
    have "eventually (\<lambda>re::real. re \<in> {1<..<1000}) (at_right 1)"
      by (rule eventually_at_right_real) simp
    then show ?thesis
      by (rule eventually_mono) (simp add: sphere_middle_branch)
  qed
  ultimately have "((\<lambda>re. get_drag_coefficient SPHERE re ma angle)
          \<longlongrightarrow> 24 / 1 * (1 + 0.15 * (1 powr 0.687))) (at_right 1)"
    using Lim_transform_eventually by fastforce
  then show ?thesis by simp
qed

text \<open>
  C6, as amended. The sphere's drag coefficient has a jump at Reynolds number one:
  from below (the Stokes branch \<open>24 / Re\<close>) it tends to 24, while its value at one, given
  by the middle branch, is \<open>24 \<cdot> 1.15 = 27.6\<close>, which is also its limit from above.
\<close>

theorem sphere_cd_jump_at_one:
  "((\<lambda>re. get_drag_coefficient SPHERE re ma angle) \<longlongrightarrow> 24) (at_left 1)
   \<and> get_drag_coefficient SPHERE 1 ma angle = 27.6
   \<and> ((\<lambda>re. get_drag_coefficient SPHERE re ma angle) \<longlongrightarrow> 27.6) (at_right 1)"
  using sphere_left_limit [of ma angle] sphere_right_limit [of ma angle]
  by (simp add: sphere_middle_branch)

text \<open>
  C6, as stated, fails: the limit of the sphere's drag coefficient from below one is
  not its value at one.
\<close>

theorem sphere_cd_left_limit_differs:
  "\<not> ((\<lambda>re. get_drag_coefficient SPHERE re 0 0)
        \<longlongrightarrow> get_drag_coefficient SPHERE 1 0 0) (at_left 1)"
proof
  assume "((\<lambda>re. get_drag_coefficient SPHERE re 0 0)
        \<longlongrightarrow> get_drag_coefficient SPHERE 1 0 0) (at_left 1)"
  then have "get_drag_coefficient SPHERE 1 0 0 = 24"
    using sphere_left_limit [of 0 0] tendsto_unique trivial_limit_at_left_real by blast
  then show False by (simp add: sphere_middle_branch)
qed

subsection \<open>The two guards of a step\<close>

lemma cube_manager_fields:
  "geometry cube_manager = Some cube_geometry"
  "parameters cube_manager = default_parameters\<lparr>dt := 0.01, max_time := 1\<rparr>"
  "current_time cube_manager = 0"
  "results cube_manager = empty_results"
  "engine cube_manager = init_engine"
  "velocity (state cube_manager) = (0, 0, 0)"
  "position (state cube_manager) = (0, 0, 0)"
  by (simp_all add: cube_manager_def set_object_geometry_def init_manager_def cube_geometry_def)

text \<open>
  C3. A step taken while no geometry is set returns \<open>False\<close> and hands back the manager
  unchanged: the state, the clock and every sequence of the log are as before.
\<close>

theorem step_without_geometry:
  assumes "geometry m = None"
  shows "step_simulation z m = (Returned False, m)"
  using assms by (simp add: step_simulation_def)

theorem step_without_geometry_witness:
  "geometry init_manager = None
   \<and> step_simulation (0, 0, 0) init_manager = (Returned False, init_manager)"
  using step_without_geometry [of init_manager "(0, 0, 0)"]
  by (simp add: init_manager_def)

text \<open>
  C10. A step taken with a geometry set but with the clock at or past \<open>max_time\<close>
  returns \<open>False\<close> and hands back the manager unchanged as well.
\<close>

theorem step_at_max_time:
  assumes "geometry m = Some geom" and "current_time m \<ge> max_time (parameters m)"
  shows "step_simulation z m = (Returned False, m)"
  using assms by (simp add: step_simulation_def)

theorem step_at_max_time_witness:
  "geometry (cube_manager\<lparr>current_time := 1\<rparr>) = Some cube_geometry
   \<and> current_time (cube_manager\<lparr>current_time := 1\<rparr>)
       \<ge> max_time (parameters (cube_manager\<lparr>current_time := 1\<rparr>))
   \<and> step_simulation (0, 0, 0) (cube_manager\<lparr>current_time := 1\<rparr>)
       = (Returned False, cube_manager\<lparr>current_time := 1\<rparr>)"
proof -
  have g: "geometry (cube_manager\<lparr>current_time := 1\<rparr>) = Some cube_geometry"
    by (simp add: cube_manager_fields)
  have t: "current_time (cube_manager\<lparr>current_time := 1\<rparr>)
             \<ge> max_time (parameters (cube_manager\<lparr>current_time := 1\<rparr>))"
    by (simp add: cube_manager_fields)
  show ?thesis
    using g t step_at_max_time [OF g t, of "(0, 0, 0)"] by simp
qed

subsection \<open>The step past both guards\<close>

text \<open>The step with its parts kept folded: the outcome is decided by the snapshot
  alone, and the manager gets the new clock, state and log in either case.\<close>

lemma step_simulation_running:
  fixes z :: vec3 and m :: SimulationManager and geom :: ObjectGeometry
  assumes "geometry m = Some geom" and "current_time m < max_time (parameters m)"
  defines "f \<equiv> calculate_forces (air_props (engine m)) geom (velocity (state m))
                 (object_angle (parameters m)) (step_wind (parameters m) z)"
    and "t \<equiv> current_time m + dt (parameters m)"
  defines "st \<equiv> integrate_state (parameters m) f t (state m)"
  defines "snap \<equiv> record_snapshot (engine m) geom (parameters m) st f
                    (record_step t st f (results m))"
  shows "step_simulation z m =
           (case fst snap of None \<Rightarrow> Returned True | Some e \<Rightarrow> Raised e,
            m\<lparr>current_time := t, state := st, results := snd snap\<rparr>)"
  using assms(1,2) unfolding f_def t_def st_def snap_def
  by (simp add: step_simulation_def Let_def split: option.splits)

lemma step_parameters: "parameters (snd (step_simulation z m)) = parameters m"
  by (simp add: step_simulation_def Let_def split: option.splits)

lemma step_geometry: "geometry (snd (step_simulation z m)) = geometry m"
  by (simp add: step_simulation_def Let_def split: option.splits)

lemma record_snapshot_histories:
  "time_history (snd (record_snapshot eng geom p st f r)) = time_history r"
  "position_history (snd (record_snapshot eng geom p st f r)) = position_history r"
  "velocity_history (snd (record_snapshot eng geom p st f r)) = velocity_history r"
  "acceleration_history (snd (record_snapshot eng geom p st f r)) = acceleration_history r"
  "force_history (snd (record_snapshot eng geom p st f r)) = force_history r"
  by (simp_all add: record_snapshot_def Let_def split: sum.splits)

lemma record_snapshot_skip:
  "length (time_history r) mod 10 \<noteq> 0 \<Longrightarrow> record_snapshot eng geom p st f r = (None, r)"
  by (simp add: record_snapshot_def)

lemma record_snapshot_taken:
  assumes "length (time_history r) mod 10 = 0" and "max (width geom) (height geom) \<noteq> 0"
  shows "fst (record_snapshot eng geom p st f r) = None"
    and "length (flow_fields (snd (record_snapshot eng geom p st f r)))
           = Suc (length (flow_fields r))"
    and "length (efficiency_metrics (snd (record_snapshot eng geom p st f r)))
           = Suc (length (efficiency_metrics r))"
  using assms
  by (simp_all add: record_snapshot_def calculate_aerodynamic_efficiency_def Let_def)

lemma record_snapshot_raises:
  assumes "length (time_history r) mod 10 = 0" and "max (width geom) (height geom) = 0"
  shows "fst (record_snapshot eng geom p st f r) = Some ZeroDivisionError"
    and "length (flow_fields (snd (record_snapshot eng geom p st f r)))
           = Suc (length (flow_fields r))"
    and "efficiency_metrics (snd (record_snapshot eng geom p st f r)) = efficiency_metrics r"
  using assms
  by (simp_all add: record_snapshot_def calculate_aerodynamic_efficiency_def Let_def)

lemma record_step_lengths:
  "length (time_history (record_step t st f r)) = Suc (length (time_history r))"
  "length (position_history (record_step t st f r)) = Suc (length (position_history r))"
  "length (velocity_history (record_step t st f r)) = Suc (length (velocity_history r))"
  "length (acceleration_history (record_step t st f r)) = Suc (length (acceleration_history r))"
  "length (force_history (record_step t st f r)) = Suc (length (force_history r))"
  "flow_fields (record_step t st f r) = flow_fields r"
  "efficiency_metrics (record_step t st f r) = efficiency_metrics r"
  by (simp_all add: record_step_def)

text \<open>A step that passes both guards and takes no snapshot.\<close>

lemma step_plain:
  assumes "geometry m = Some geom" and "current_time m < max_time (parameters m)"
    and "Suc (length (time_history (results m))) mod 10 \<noteq> 0"
  shows "fst (step_simulation z m) = Returned True"
    and "current_time (snd (step_simulation z m)) = current_time m + dt (parameters m)"
    and "length (time_history (results (snd (step_simulation z m))))
           = Suc (length (time_history (results m)))"
    and "length (position_history (results (snd (step_simulation z m))))
           = Suc (length (position_history (results m)))"
    and "length (velocity_history (results (snd (step_simulation z m))))
           = Suc (length (velocity_history (results m)))"
    and "length (acceleration_history (results (snd (step_simulation z m))))
           = Suc (length (acceleration_history (results m)))"
    and "length (force_history (results (snd (step_simulation z m))))
           = Suc (length (force_history (results m)))"
    and "flow_fields (results (snd (step_simulation z m))) = flow_fields (results m)"
    and "efficiency_metrics (results (snd (step_simulation z m)))
           = efficiency_metrics (results m)"
  using assms(3)
  by (simp_all add: step_simulation_running [OF assms(1,2)] record_snapshot_skip
      record_step_lengths)

text \<open>A step that passes both guards and takes a snapshot of a body with an extent.\<close>

lemma step_snapshot:
  assumes "geometry m = Some geom" and "current_time m < max_time (parameters m)"
    and "Suc (length (time_history (results m))) mod 10 = 0"
    and "max (width geom) (height geom) \<noteq> 0"
  shows "fst (step_simulation z m) = Returned True"
    and "current_time (snd (step_simulation z m)) = current_time m + dt (parameters m)"
    and "length (time_history (results (snd (step_simulation z m))))
           = Suc (length (time_history (results m)))"
    and "length (position_history (results (snd (step_simulation z m))))
           = Suc (length (position_history (results m)))"
    and "length (velocity_history (results (snd (step_simulation z m))))
           = Suc (length (velocity_history (results m)))"
    and "length (acceleration_history (results (snd (step_simulation z m))))
           = Suc (length (acceleration_history (results m)))"
    and "length (force_history (results (snd (step_simulation z m))))
           = Suc (length (force_history (results m)))"
    and "length (flow_fields (results (snd (step_simulation z m))))
           = Suc (length (flow_fields (results m)))"
    and "length (efficiency_metrics (results (snd (step_simulation z m))))
           = Suc (length (efficiency_metrics (results m)))"
  using assms(3,4)
  by (simp_all add: step_simulation_running [OF assms(1,2)] record_snapshot_taken
      record_snapshot_histories record_step_lengths)

text \<open>The same step for a body whose width and height are both zero: the division in
  \<open>calculate_aerodynamic_efficiency\<close> raises after the flow field has been appended.\<close>

lemma step_snapshot_raises:
  assumes "geometry m = Some geom" and "current_time m < max_time (parameters m)"
    and "Suc (length (time_history (results m))) mod 10 = 0"
    and "max (width geom) (height geom) = 0"
  shows "fst (step_simulation z m) = Raised ZeroDivisionError"
    and "length (time_history (results (snd (step_simulation z m))))
           = Suc (length (time_history (results m)))"
    and "length (flow_fields (results (snd (step_simulation z m))))
           = Suc (length (flow_fields (results m)))"
    and "efficiency_metrics (results (snd (step_simulation z m)))
           = efficiency_metrics (results m)"
  using assms(3,4)
  by (simp_all add: step_simulation_running [OF assms(1,2)] record_snapshot_raises
      record_snapshot_histories record_step_lengths)

subsection \<open>The integrator\<close>

lemma sqrt_100: "sqrt 100 = 10"
  by (rule real_sqrt_unique) simp_all

text \<open>
  C2. Every successful step (one that returns \<open>True\<close>) integrates by the semi-implicit
  Euler scheme with unit mass. With \<open>f\<close> the bundle \<open>calculate_forces\<close> returns for the
  velocity before the step and the wind of the step: the new acceleration is
  \<open>f.total + gravity\<close>; the new velocity is the old one plus the new acceleration times
  \<open>dt\<close>; the new position is the old one plus the new velocity times \<open>dt\<close>; the clock
  advances by \<open>dt\<close>, and the state's time is the new clock.
\<close>

theorem step_semi_implicit_euler:
  assumes "geometry m = Some geom" and "step_simulation z m = (Returned True, m')"
  shows "forces (state m') = Some (calculate_forces (air_props (engine m)) geom
             (velocity (state m)) (object_angle (parameters m)) (step_wind (parameters m) z))
       \<and> acceleration (state m') =
           vadd (total_vec (calculate_forces (air_props (engine m)) geom
             (velocity (state m)) (object_angle (parameters m)) (step_wind (parameters m) z)))
             (gravity (parameters m))
       \<and> velocity (state m') =
           vadd (velocity (state m)) (vscale (acceleration (state m')) (dt (parameters m)))
       \<and> position (state m') =
           vadd (position (state m)) (vscale (velocity (state m')) (dt (parameters m)))
       \<and> current_time m' = current_time m + dt (parameters m)
       \<and> time (state m') = current_time m'"
  using assms
  by (auto simp add: step_simulation_def integrate_state_def Let_def
      split: if_splits option.splits)

theorem step_semi_implicit_euler_witness:
  "geometry cube_manager = Some cube_geometry
   \<and> step_simulation (0, 0, 0) cube_manager
       = (Returned True, snd (step_simulation (0, 0, 0) cube_manager))
   \<and> acceleration (state (snd (step_simulation (0, 0, 0) cube_manager))) = (257.25, - 9.81, 0)
   \<and> velocity (state (snd (step_simulation (0, 0, 0) cube_manager))) = (2.5725, - 0.0981, 0)
   \<and> position (state (snd (step_simulation (0, 0, 0) cube_manager)))
       = (0.025725, - 0.000981, 0)
   \<and> current_time (snd (step_simulation (0, 0, 0) cube_manager)) = 0.01
   \<and> time (state (snd (step_simulation (0, 0, 0) cube_manager))) = 0.01"
proof -
  have g: "geometry cube_manager = Some cube_geometry"
    by (simp add: cube_manager_fields)
  have "fst (step_simulation (0, 0, 0) cube_manager) = Returned True"
    by (rule step_plain(1) [OF g]) (simp_all add: cube_manager_fields empty_results_def)
  then have s: "step_simulation (0, 0, 0) cube_manager
                  = (Returned True, snd (step_simulation (0, 0, 0) cube_manager))"
    by (simp add: prod_eq_iff)
  have p: "gravity (parameters cube_manager) = (0, - 9.81, 0)"
    "dt (parameters cube_manager) = 0.01" "object_angle (parameters cube_manager) = 0"
    "air_props (engine cube_manager) = default_air"
    by (simp_all add: cube_manager_fields default_parameters_def init_engine_def)
  have w: "step_wind (parameters cube_manager) (0, 0, 0) = (10, 0, 0)"
    by (simp add: cube_manager_fields step_wind_def default_parameters_def radians_def
        sqrt_100)
  have f: "total_vec (calculate_forces default_air cube_geometry (0, 0, 0) 0 (10, 0, 0))
             = (257.25, 0, 0)"
    by (simp add: calculate_forces_def sqrt_100 Let_def cube_geometry_def default_air_def
        get_drag_coefficient_def calculate_lift_coefficient_def radians_def np_zeros3_def)
  show ?thesis
    using g s step_semi_implicit_euler [OF g s]
    by (simp add: cube_manager_fields(3,6,7) p w f)
qed

subsection \<open>Determinism without turbulence\<close>

lemma step_ignores_flags:
  "step_simulation z (m\<lparr>is_running := a, is_paused := b\<rparr>) =
     (fst (step_simulation z m), (snd (step_simulation z m))\<lparr>is_running := a, is_paused := b\<rparr>)"
  by (simp add: step_simulation_def Let_def split: option.splits)

lemma step_ignores_sample:
  "\<not> enable_turbulence (parameters m) \<Longrightarrow> step_simulation z m = step_simulation z' m"
  by (simp add: step_simulation_def step_wind_def Let_def split: option.splits)

lemma agree_up_to_flags:
  fixes m1 m2 :: SimulationManager
  assumes "parameters m1 = parameters m2" and "geometry m1 = geometry m2"
    and "state m1 = state m2" and "engine m1 = engine m2"
    and "current_time m1 = current_time m2" and "results m1 = results m2"
  shows "m2 = m1\<lparr>is_running := is_running m2, is_paused := is_paused m2\<rparr>"
  using assms by (intro SimulationManager.equality) simp_all

lemma step_agree:
  assumes "\<not> enable_turbulence (parameters m1)"
    and "parameters m1 = parameters m2" and "geometry m1 = geometry m2"
    and "state m1 = state m2" and "engine m1 = engine m2"
    and "current_time m1 = current_time m2" and "results m1 = results m2"
  shows "fst (step_simulation z1 m1) = fst (step_simulation z2 m2)
       \<and> parameters (snd (step_simulation z1 m1)) = parameters (snd (step_simulation z2 m2))
       \<and> geometry (snd (step_simulation z1 m1)) = geometry (snd (step_simulation z2 m2))
       \<and> state (snd (step_simulation z1 m1)) = state (snd (step_simulation z2 m2))
       \<and> engine (snd (step_simulation z1 m1)) = engine (snd (step_simulation z2 m2))
       \<and> current_time (snd (step_simulation z1 m1)) = current_time (snd (step_simulation z2 m2))
       \<and> results (snd (step_simulation z1 m1)) = results (snd (step_simulation z2 m2))"
proof -
  have "step_simulation z2 m2 =
      (fst (step_simulation z2 m1),
       (snd (step_simulation z2 m1))\<lparr>is_running := is_running m2, is_paused := is_paused m2\<rparr>)"
    using agree_up_to_flags [OF assms(2-7)] step_ignores_flags by metis
  moreover have "step_simulation z2 m1 = step_simulation z1 m1"
    using assms(1) by (rule step_ignores_sample)
  ultimately show ?thesis by simp
qed

lemma step_loop_agree:
  assumes "length zs1 = length zs2"
    and "\<not> enable_turbulence (parameters m1)"
    and "parameters m1 = parameters m2" and "geometry m1 = geometry m2"
    and "state m1 = state m2" and "engine m1 = engine m2"
    and "current_time m1 = current_time m2" and "results m1 = results m2"
  shows "fst (step_loop zs1 m1) = fst (step_loop zs2 m2)
       \<and> state (snd (step_loop zs1 m1)) = state (snd (step_loop zs2 m2))
       \<and> current_time (snd (step_loop zs1 m1)) = current_time (snd (step_loop zs2 m2))
       \<and> results (snd (step_loop zs1 m1)) = results (snd (step_loop zs2 m2))"
  using assms
proof (induction zs1 zs2 arbitrary: m1 m2 rule: list_induct2)
  case Nil
  then show ?case by simp
next
  case (Cons z1 zs1 z2 zs2)
  note a = step_agree [OF Cons.prems(1-7), of z1 z2]
  show ?case
  proof (cases "fst (step_simulation z1 m1) = Returned True")
    case True
    have "\<not> enable_turbulence (parameters (snd (step_simulation z1 m1)))"
      using Cons.prems(1) by (simp add: step_parameters)
    from Cons.IH [OF this] a True show ?thesis
      by (simp add: Let_def)
  next
    case False
    with a show ?thesis by (simp add: Let_def)
  qed
qed

text \<open>
  C8. With turbulence disabled, stepping is deterministic. Two managers that agree on
  the parameters, the geometry and the state, and that start from the same engine
  constants, clock and log (as two freshly built or freshly reset managers do), end
  their stepping loops the same way and with the same time, position and velocity
  sequences in their logs, whatever the random source would have delivered to either
  and whatever their running and paused flags are.
\<close>

theorem runs_deterministic_without_turbulence:
  assumes "\<not> enable_turbulence (parameters m1)"
    and "parameters m1 = parameters m2" and "geometry m1 = geometry m2"
    and "state m1 = state m2" and "engine m1 = engine m2"
    and "current_time m1 = current_time m2" and "results m1 = results m2"
    and "length zs1 = length zs2"
  shows "fst (step_loop zs1 m1) = fst (step_loop zs2 m2)
       \<and> time_history (results (snd (step_loop zs1 m1)))
           = time_history (results (snd (step_loop zs2 m2)))
       \<and> position_history (results (snd (step_loop zs1 m1)))
           = position_history (results (snd (step_loop zs2 m2)))
       \<and> velocity_history (results (snd (step_loop zs1 m1)))
           = velocity_history (results (snd (step_loop zs2 m2)))"
  using step_loop_agree [OF assms(8) assms(1-7)] by simp

theorem runs_deterministic_without_turbulence_witness:
  "\<not> enable_turbulence (parameters cube_manager)
   \<and> parameters cube_manager = parameters (cube_manager\<lparr>is_running := True\<rparr>)
   \<and> geometry cube_manager = geometry (cube_manager\<lparr>is_running := True\<rparr>)
   \<and> state cube_manager = state (cube_manager\<lparr>is_running := True\<rparr>)
   \<and> engine cube_manager = engine (cube_manager\<lparr>is_running := True\<rparr>)
   \<and> current_time cube_manager = current_time (cube_manager\<lparr>is_running := True\<rparr>)
   \<and> results cube_manager = results (cube_manager\<lparr>is_running := True\<rparr>)
   \<and> length [(1, 2, 3), (0, 0, 0) :: vec3] = length [(0, 0, 0), (4, 5, 6) :: vec3]
   \<and> fst (step_loop [(1, 2, 3), (0, 0, 0)] cube_manager)
       = fst (step_loop [(0, 0, 0), (4, 5, 6)] (cube_manager\<lparr>is_running := True\<rparr>))
   \<and> time_history (results (snd (step_loop [(1, 2, 3), (0, 0, 0)] cube_manager)))
       = time_history (results (snd (step_loop [(0, 0, 0), (4, 5, 6)]
           (cube_manager\<lparr>is_running := True\<rparr>))))
   \<and> position_history (results (snd (step_loop [(1, 2, 3), (0, 0, 0)] cube_manager)))
       = position_history (results (snd (step_loop [(0, 0, 0), (4, 5, 6)]
           (cube_manager\<lparr>is_running := True\<rparr>))))
   \<and> velocity_history (results (snd (step_loop [(1, 2, 3), (0, 0, 0)] cube_manager)))
       = velocity_history (results (snd (step_loop [(0, 0, 0), (4, 5, 6)]
           (cube_manager\<lparr>is_running := True\<rparr>))))"
proof -
  have t: "\<not> enable_turbulence (parameters cube_manager)"
    by (simp add: cube_manager_fields default_parameters_def)
  have l: "length [(1, 2, 3), (0, 0, 0) :: vec3] = length [(0, 0, 0), (4, 5, 6) :: vec3]"
    by simp
  show ?thesis
    using t runs_deterministic_without_turbulence
      [of cube_manager "cube_manager\<lparr>is_running := True\<rparr>", OF t _ _ _ _ _ _ l]
    by simp
qed

subsection \<open>The length invariant of the log\<close>

lemma step_preserves_log_invariant:
  assumes "log_invariant (results m)" and "fst (step_simulation z m) = Returned b"
  shows "log_invariant (results (snd (step_simulation z m)))"
proof (cases "geometry m")
  case None
  then show ?thesis using assms(1) by (simp add: step_simulation_def)
next
  case (Some geom)
  show ?thesis
  proof (cases "current_time m < max_time (parameters m)")
    case False
    then show ?thesis using Some assms(1) by (simp add: step_simulation_def)
  next
    case t: True
    show ?thesis
    proof (cases "Suc (length (time_history (results m))) mod 10 = 0")
      case False
      have "Suc (length (time_history (results m))) div 10
              = length (time_history (results m)) div 10"
        using False by (simp add: div_Suc)
      then show ?thesis
        using assms(1) step_plain [OF Some t False, of z]
        by (simp add: log_invariant_def)
    next
      case True
      have d: "Suc (length (time_history (results m))) div 10
                 = Suc (length (time_history (results m)) div 10)"
        using True by (simp add: div_Suc)
      have "max (width geom) (height geom) \<noteq> 0"
        using step_snapshot_raises(1) [OF Some t True, of z] assms(2) by auto
      then show ?thesis
        using assms(1) d step_snapshot [OF Some t True, of z]
        by (simp add: log_invariant_def)
    qed
  qed
qed

lemma reset_establishes_log_invariant: "log_invariant (results (reset_simulation m))"
  by (simp add: reset_simulation_def empty_results_def log_invariant_def)

text \<open>
  X1. The log's length invariant (the five per-step sequences are equally long, and
  the flow-field and efficiency sequences both hold one entry per ten steps) is kept
  by every sequence of steps and resets in which no step raises: if it holds before
  and the sequence runs to its end, it holds after.
\<close>

theorem log_invariant_kept:
  assumes "log_invariant (results m)" and "run_commands cs m = Inr m'"
  shows "log_invariant (results m')"
  using assms
proof (induction cs m rule: run_commands.induct)
  case (1 m)
  then show ?case by simp
next
  case (2 cs m)
  then show ?case by (simp add: reset_establishes_log_invariant)
next
  case (3 z cs m)
  from "3.prems"(2) obtain b where b: "fst (step_simulation z m) = Returned b"
    by (cases "fst (step_simulation z m)") simp_all
  have "log_invariant (results (snd (step_simulation z m)))"
    using "3.prems"(1) b by (rule step_preserves_log_invariant)
  moreover have "run_commands cs (snd (step_simulation z m)) = Inr m'"
    using "3.prems"(2) b by simp
  ultimately show ?case using "3.IH" b by simp
qed

theorem log_invariant_kept_witness:
  "log_invariant (results cube_manager)
   \<and> run_commands [Step (0, 0, 0), Reset] cube_manager
       = Inr (reset_simulation (snd (step_simulation (0, 0, 0) cube_manager)))
   \<and> log_invariant (results (reset_simulation (snd (step_simulation (0, 0, 0) cube_manager))))"
proof -
  have i: "log_invariant (results cube_manager)"
    by (simp add: cube_manager_fields empty_results_def log_invariant_def)
  have "fst (step_simulation (0, 0, 0) cube_manager) = Returned True"
    by (rule step_plain(1) [OF cube_manager_fields(1)])
       (simp_all add: cube_manager_fields empty_results_def)
  then have r: "run_commands [Step (0, 0, 0), Reset] cube_manager
       = Inr (reset_simulation (snd (step_simulation (0, 0, 0) cube_manager)))"
    by simp
  show ?thesis
    using i r log_invariant_kept [OF i r] by simp
qed

subsection \<open>Stepping a body without width and height\<close>

lemma flat_run:
  assumes "geometry m = Some geom" and "max (width geom) (height geom) = 0"
    and "dt (parameters m) = 1 / 100" and "max_time (parameters m) = 1"
    and "current_time m = real j / 100"
    and "length (time_history (results m)) = j" and "j + k = 9" and "k < length zs"
  shows "fst (step_loop zs m) = Some (Raised ZeroDivisionError)
       \<and> length (time_history (results (snd (step_loop zs m)))) = 10
       \<and> length (flow_fields (results (snd (step_loop zs m))))
           = Suc (length (flow_fields (results m)))
       \<and> length (efficiency_metrics (results (snd (step_loop zs m))))
           = length (efficiency_metrics (results m))"
  using assms
proof (induction k arbitrary: m j zs)
  case 0
  then obtain z zs' where zs: "zs = z # zs'" by (cases zs) auto
  have t: "current_time m < max_time (parameters m)" using 0 by simp
  have n: "Suc (length (time_history (results m))) mod 10 = 0" using 0 by simp
  show ?case
    using step_snapshot_raises [OF "0.prems"(1) t n "0.prems"(2), of z] "0.prems"(6,7)
    by (simp add: zs Let_def)
next
  case (Suc k)
  then obtain z zs' where zs: "zs = z # zs'" by (cases zs) auto
  have t: "current_time m < max_time (parameters m)" using Suc.prems by simp
  have n: "Suc (length (time_history (results m))) mod 10 \<noteq> 0" using Suc.prems by simp
  note s = step_plain [OF Suc.prems(1) t n, of z]
  let ?m = "snd (step_simulation z m)"
  have "fst (step_loop zs' ?m) = Some (Raised ZeroDivisionError)
       \<and> length (time_history (results (snd (step_loop zs' ?m)))) = 10
       \<and> length (flow_fields (results (snd (step_loop zs' ?m))))
           = Suc (length (flow_fields (results ?m)))
       \<and> length (efficiency_metrics (results (snd (step_loop zs' ?m))))
           = length (efficiency_metrics (results ?m))"
  proof (rule Suc.IH [where j = "Suc j"])
    show "geometry ?m = Some geom" using Suc.prems(1) by (simp add: step_geometry)
    show "max (width geom) (height geom) = 0" by fact
    show "dt (parameters ?m) = 1 / 100" using Suc.prems(3) by (simp add: step_parameters)
    show "max_time (parameters ?m) = 1" using Suc.prems(4) by (simp add: step_parameters)
    show "current_time ?m = real (Suc j) / 100"
      using s(2) Suc.prems(3,5) by (simp add: add_divide_distrib)
    show "length (time_history (results ?m)) = Suc j" using s(3) Suc.prems(6) by simp
    show "Suc j + k = 9" using Suc.prems(7) by simp
    show "k < length zs'" using Suc.prems(8) zs by simp
  qed
  then show ?case using s(1,8,9) by (simp add: zs Let_def)
qed

lemma flat_manager_fields:
  "geometry flat_manager = Some \<lparr> length_g = 1, width = 0, height = 0, frontal_area = 0,
     surface_area = 0, volume = 0, object_type = CUBE \<rparr>"
  "dt (parameters flat_manager) = 1 / 100"
  "max_time (parameters flat_manager) = 1"
  "current_time flat_manager = 0"
  "results flat_manager = empty_results"
  by (simp_all add: flat_manager_def set_object_geometry_def init_manager_def
      default_parameters_def)

text \<open>
  C4, at the failing input. For a body built with width 0 and height 0, the tenth step
  of a fresh manager raises \<open>ZeroDivisionError\<close> between the two appends of the
  snapshot: the log then holds ten entries per step sequence, one flow field and no
  efficiency metrics, and the length invariant is broken.
\<close>

theorem flat_body_breaks_log_invariant:
  "fst (step_loop (replicate 10 (0, 0, 0)) flat_manager) = Some (Raised ZeroDivisionError)
   \<and> length (time_history (results (snd (step_loop (replicate 10 (0, 0, 0)) flat_manager))))
       = 10
   \<and> length (flow_fields (results (snd (step_loop (replicate 10 (0, 0, 0)) flat_manager))))
       = 1
   \<and> length (efficiency_metrics
         (results (snd (step_loop (replicate 10 (0, 0, 0)) flat_manager)))) = 0
   \<and> \<not> log_invariant (results (snd (step_loop (replicate 10 (0, 0, 0)) flat_manager)))"
proof -
  have "fst (step_loop (replicate 10 (0, 0, 0)) flat_manager) = Some (Raised ZeroDivisionError)
       \<and> length (time_history (results (snd (step_loop (replicate 10 (0, 0, 0)) flat_manager))))
           = 10
       \<and> length (flow_fields (results (snd (step_loop (replicate 10 (0, 0, 0)) flat_manager))))
           = Suc (length (flow_fields (results flat_manager)))
       \<and> length (efficiency_metrics
             (results (snd (step_loop (replicate 10 (0, 0, 0)) flat_manager))))
           = length (efficiency_metrics (results flat_manager))"
    by (rule flat_run [where j = 0 and k = 9, OF flat_manager_fields(1)])
       (simp_all add: flat_manager_fields empty_results_def)
  then show ?thesis
    by (simp add: flat_manager_fields empty_results_def log_invariant_def)
qed

subsection \<open>The number of steps until the clock reaches the end\<close>

lemma hundred_steps:
  assumes "geometry m = Some geom" and "max (width geom) (height geom) \<noteq> 0"
    and "dt (parameters m) = 1 / 100" and "max_time (parameters m) = 1"
    and "current_time m = real j / 100" and "j + k = 100" and "k < length zs"
  shows "fst (step_loop zs m) = Some (Returned False)
       \<and> length (time_history (results (snd (step_loop zs m))))
           = length (time_history (results m)) + k"
  using assms
proof (induction k arbitrary: m j zs)
  case 0
  then obtain z zs' where zs: "zs = z # zs'" by (cases zs) auto
  have "current_time m \<ge> max_time (parameters m)" using 0 by simp
  then have "step_simulation z m = (Returned False, m)"
    using "0.prems"(1) by (simp add: step_simulation_def)
  then show ?case by (simp add: zs)
next
  case (Suc k)
  then obtain z zs' where zs: "zs = z # zs'" by (cases zs) auto
  have "real j < 100" using Suc.prems(6) by simp
  then have t: "current_time m < max_time (parameters m)" using Suc.prems(4,5) by simp
  let ?m = "snd (step_simulation z m)"
  have s: "fst (step_simulation z m) = Returned True
       \<and> current_time ?m = current_time m + dt (parameters m)
       \<and> length (time_history (results ?m)) = Suc (length (time_history (results m)))"
  proof (cases "Suc (length (time_history (results m))) mod 10 = 0")
    case True
    show ?thesis using step_snapshot(1-3) [OF Suc.prems(1) t True Suc.prems(2), of z] by simp
  next
    case False
    show ?thesis using step_plain(1-3) [OF Suc.prems(1) t False, of z] by simp
  qed
  have "fst (step_loop zs' ?m) = Some (Returned False)
       \<and> length (time_history (results (snd (step_loop zs' ?m))))
           = length (time_history (results ?m)) + k"
  proof (rule Suc.IH [where j = "Suc j"])
    show "geometry ?m = Some geom" using Suc.prems(1) by (simp add: step_geometry)
    show "max (width geom) (height geom) \<noteq> 0" by fact
    show "dt (parameters ?m) = 1 / 100" using Suc.prems(3) by (simp add: step_parameters)
    show "max_time (parameters ?m) = 1" using Suc.prems(4) by (simp add: step_parameters)
    show "current_time ?m = real (Suc j) / 100"
      using s Suc.prems(3,5) by (simp add: add_divide_distrib)
    show "Suc j + k = 100" using Suc.prems(6) by simp
    show "k < length zs'" using Suc.prems(7) zs by simp
  qed
  then show ?case using s by (simp add: zs Let_def)
qed

text \<open>
  X2. For a body whose width and height are not both zero, with \<open>dt = 0.01\<close>,
  \<open>max_time = 1.0\<close> and the clock at 0, the stepping loop ends with a call that returns
  \<open>False\<close> once it is given a budget of more than 100 calls, and it has then appended
  exactly 100 entries to the time sequence of the log (in exact arithmetic).
\<close>

theorem hundred_entries_for_body_with_extent:
  assumes "geometry m = Some geom" and "max (width geom) (height geom) \<noteq> 0"
    and "dt (parameters m) = 0.01" and "max_time (parameters m) = 1"
    and "current_time m = 0" and "length zs > 100"
  shows "fst (step_loop zs m) = Some (Returned False)
       \<and> length (time_history (results (snd (step_loop zs m))))
           = length (time_history (results m)) + 100"
  by (rule hundred_steps [where j = 0, OF assms(1,2)]) (use assms(3-6) in simp_all)

theorem hundred_entries_for_body_with_extent_witness:
  "geometry cube_manager = Some cube_geometry
   \<and> max (width cube_geometry) (height cube_geometry) \<noteq> 0
   \<and> dt (parameters cube_manager) = 0.01
   \<and> max_time (parameters cube_manager) = 1
   \<and> current_time cube_manager = 0
   \<and> length (replicate 101 (0, 0, 0) :: vec3 list) > 100
   \<and> fst (step_loop (replicate 101 (0, 0, 0)) cube_manager) = Some (Returned False)
   \<and> length (time_history (results (snd (step_loop (replicate 101 (0, 0, 0)) cube_manager))))
       = 100"
proof -
  have e: "max (width cube_geometry) (height cube_geometry) \<noteq> 0"
    by (simp add: cube_geometry_def)
  have p: "dt (parameters cube_manager) = 0.01" "max_time (parameters cube_manager) = 1"
    by (simp_all add: cube_manager_fields)
  have l: "length (replicate 101 (0, 0, 0) :: vec3 list) > 100"
    by simp
  show ?thesis
    using e p l
      hundred_entries_for_body_with_extent
        [OF cube_manager_fields(1) e p cube_manager_fields(3) l]
    by (simp add: cube_manager_fields empty_results_def)
qed

text \<open>
  C7, at the failing input. For a body built with width 0 and height 0, with
  \<open>dt = 0.01\<close>, \<open>max_time = 1.0\<close> and the clock at 0, the stepping loop never sees a call
  return \<open>False\<close>: the tenth call raises \<open>ZeroDivisionError\<close>, and the time sequence of
  the log holds 10 entries, not 100.
\<close>

theorem flat_body_stops_after_ten_entries:
  "fst (step_loop (replicate 101 (0, 0, 0)) flat_manager) = Some (Raised ZeroDivisionError)
   \<and> fst (step_loop (replicate 101 (0, 0, 0)) flat_manager) \<noteq> Some (Returned False)
   \<and> length (time_history (results (snd (step_loop (replicate 101 (0, 0, 0)) flat_manager))))
       = 10"
proof -
  have "fst (step_loop (replicate 101 (0, 0, 0)) flat_manager) = Some (Raised ZeroDivisionError)
       \<and> length (time_history (results (snd (step_loop (replicate 101 (0, 0, 0)) flat_manager))))
           = 10
       \<and> length (flow_fields (results (snd (step_loop (replicate 101 (0, 0, 0)) flat_manager))))
           = Suc (length (flow_fields (results flat_manager)))
       \<and> length (efficiency_metrics
             (results (snd (step_loop (replicate 101 (0, 0, 0)) flat_manager))))
           = length (efficiency_metrics (results flat_manager))"
    by (rule flat_run [where j = 0 and k = 9, OF flat_manager_fields(1)])
       (simp_all add: flat_manager_fields empty_results_def)
  then show ?thesis by simp
qed

subsection \<open>The flow field in a domain smaller than the body\<close>












end
